theory Spec2Isabelle
  imports Main
begin

section \<open>The error taxonomy of the tunnel client (whclient/errors.go)\<close>

text \<open>
  The Go struct \<^verbatim>\<open>clientError\<close> has three fields, in this order:
  \<^verbatim>\<open>errString string\<close>, \<^verbatim>\<open>reconnect bool\<close>, \<^verbatim>\<open>timeout bool\<close>.
\<close>

record clientError =
  errString :: string
  reconnect :: bool
  timeout :: bool

text \<open>The three methods on the value receiver \<^verbatim>\<open>c clientError\<close>.\<close>

definition Error :: "clientError \<Rightarrow> string" where
  "Error c = errString c"

definition Temporary :: "clientError \<Rightarrow> bool" where
  "Temporary c = reconnect c"

definition Timeout :: "clientError \<Rightarrow> bool" where
  "Timeout c = timeout c"

text \<open>
  The seven package-level values. A Go composite literal leaves every field it does not
  name at the zero value of its type, which is \<^verbatim>\<open>false\<close> for \<^verbatim>\<open>bool\<close>; the
  literals below spell those fields out.
\<close>

definition ErrRetryTimedOut :: clientError where
  "ErrRetryTimedOut =
     \<lparr>errString = ''retry timed out'', reconnect = False, timeout = True\<rparr>"

definition ErrBadToken :: clientError where
  "ErrBadToken =
     \<lparr>errString = ''bad auth token'', reconnect = False, timeout = False\<rparr>"

definition ErrRetryFailed :: clientError where
  "ErrRetryFailed =
     \<lparr>errString = ''retry failed'', reconnect = False, timeout = False\<rparr>"

definition ErrClientReconnecting :: clientError where
  "ErrClientReconnecting =
     \<lparr>errString = ''client reconnecting'', reconnect = True, timeout = False\<rparr>"

definition ErrClientClosed :: clientError where
  "ErrClientClosed =
     \<lparr>errString = ''client closed'', reconnect = False, timeout = False\<rparr>"

definition ErrAuthorizerNotProvided :: clientError where
  "ErrAuthorizerNotProvided =
     \<lparr>errString = ''authorizer function was not provided to client'',
      reconnect = False, timeout = False\<rparr>"

definition ErrTLSConfigRequired :: clientError where
  "ErrTLSConfigRequired =
     \<lparr>errString = ''tls config must be provided to use secure connections'',
      reconnect = False, timeout = False\<rparr>"

text \<open>The \<^verbatim>\<open>var ( ... )\<close> block, in declaration order.\<close>

definition definedErrors :: "clientError list" where
  "definedErrors =
     [ErrRetryTimedOut, ErrBadToken, ErrRetryFailed, ErrClientReconnecting,
      ErrClientClosed, ErrAuthorizerNotProvided, ErrTLSConfigRequired]"

section \<open>The client state machine, its operations and \<open>close\<close>\<close>

text \<open>
  None of the client's own code is among the source files; only the error values it hands
  out are. Everything in this section is therefore written from the spec (sections 3, 4.1,
  4.3, 4.4, 5 and 8), each definition saying which sentences it follows.
\<close>

text \<open>
  Modelled from the spec: \<open>ClientState\<close> of section 3, one of five values; \<open>Closed\<close> is
  terminal.
\<close>

datatype ClientState = Idle | Connecting | Connected | Reconnecting | Closed

text \<open>
  Modelled from the spec: the physical transport of one generation (section 3). Releasing
  it may itself report an error, which is all \<open>close\<close> needs to know about it.
\<close>

record TunnelConnection =
  generation :: nat
  releaseError :: "string option"

text \<open>
  Modelled from the spec: what a call does when it is made (section 5, suspension points).
  It either returns a result at once, or it blocks: the caller is parked and is handed its
  result by a later event.
\<close>

datatype 'a outcome = Returns 'a | Blocks

text \<open>
  Modelled from the spec: what a parked caller is handed when it is woken: an error, a
  newly opened virtual connection (its stream id), or the news that its read or write can
  go on.
\<close>

datatype handed = Failed clientError | Delivered nat | Ready

text \<open>
  Modelled from the spec: the client as its operations see it. Its state; the queue of
  newly opened virtual connections not yet accepted (stream ids, section 4.3); the callers
  parked in \<open>accept\<close> and the callers parked in a virtual-connection read or write (each a
  caller id); the callers woken so far with what each was handed; whether a backoff sleep is
  in progress; and the physical transport when one is open.
\<close>

record client =
  state :: ClientState
  acceptQueue :: "nat list"
  pendingAccepts :: "nat list"
  pendingIO :: "nat list"
  woken :: "(nat \<times> handed) list"
  backoffSleeping :: bool
  transport :: "TunnelConnection option"

text \<open>Modelled from the spec: a freshly constructed client, \<open>Idle\<close> with nothing going on.\<close>

definition newClient :: client where
  "newClient =
     \<lparr>state = Idle, acceptQueue = [], pendingAccepts = [], pendingIO = [], woken = [],
      backoffSleeping = False, transport = None\<rparr>"

text \<open>Modelled from the spec: waking each of the parked callers \<open>ws\<close> with the error \<open>e\<close>.\<close>

definition failAll :: "clientError \<Rightarrow> nat list \<Rightarrow> (nat \<times> handed) list" where
  "failAll e ws = map (\<lambda>w. (w, Failed e)) ws"

text \<open>
  Modelled from the spec: the Listener Facade's \<open>close()\<close>, whose code is not among the
  source files. Following section 4.4: it transitions to \<open>Closed\<close>, unblocks every pending
  \<open>accept()\<close> with a client-closed error, unblocks every pending virtual-connection
  read/write with a client-closed error, interrupts any in-progress backoff sleep, and
  releases the physical transport if open. It waits for none of them (section 5:
  \<open>close()\<close> must promptly unblock every blocked operation), so its outcome is \<open>Returns\<close>.
  Its result is the error of section 6's \<open>close() -> error\<close>: the spec constrains it on
  repeated calls only, so a call reports whatever releasing the transport reports, and
  \<open>None\<close> when no transport is open. The definition has no test for \<open>Closed\<close>: the same five
  effects are applied in every state.
\<close>

definition close :: "client \<Rightarrow> string option outcome \<times> client" where
  "close c =
     (Returns (case transport c of None \<Rightarrow> None | Some t \<Rightarrow> releaseError t),
      c\<lparr>state := Closed,
        woken := woken c @ failAll ErrClientClosed (pendingAccepts c)
                         @ failAll ErrClientClosed (pendingIO c),
        pendingAccepts := [],
        pendingIO := [],
        backoffSleeping := False,
        transport := None\<rparr>)"

text \<open>The client after one call of \<open>close\<close>, its result dropped.\<close>

definition closed_once :: "client \<Rightarrow> client" where
  "closed_once c = snd (close c)"

text \<open>
  Modelled from the spec: \<open>accept()\<close> of section 4.4, called by caller \<open>w\<close>. On a closed
  client it returns a client-closed error immediately (section 8). Otherwise it returns the
  virtual connection at the head of the queue when there is one; with none deliverable it
  returns the temporary reconnecting error when the transport is mid-reconnect, and else it
  blocks until the Multiplexer enqueues a connection or the client is closed. The first
  call takes \<open>Idle\<close> to \<open>Connecting\<close>.
\<close>

definition accept :: "nat \<Rightarrow> client \<Rightarrow> (clientError + nat) outcome \<times> client" where
  "accept w c =
     (if state c = Closed then (Returns (Inl ErrClientClosed), c)
      else case acceptQueue c of
             v # vs \<Rightarrow> (Returns (Inr v), c\<lparr>acceptQueue := vs\<rparr>)
           | [] \<Rightarrow>
               if state c = Reconnecting then (Returns (Inl ErrClientReconnecting), c)
               else (Blocks,
                     c\<lparr>state := (if state c = Idle then Connecting else state c),
                       pendingAccepts := pendingAccepts c @ [w]\<rparr>))"

text \<open>
  Modelled from the spec: a read or write on a virtual connection by caller \<open>w\<close> (sections
  3 and 5), as far as blocking goes; \<open>ready\<close> says whether the stream has data to read or
  room to write at the moment of the call. On a closed client it fails with client-closed;
  with no live generation it fails with the temporary reconnecting error; on a live one it
  returns when \<open>ready\<close> and blocks otherwise.
\<close>

definition vcIO :: "nat \<Rightarrow> bool \<Rightarrow> client \<Rightarrow> (clientError + unit) outcome \<times> client" where
  "vcIO w ready c =
     (if state c = Closed then (Returns (Inl ErrClientClosed), c)
      else if state c \<noteq> Connected then (Returns (Inl ErrClientReconnecting), c)
      else if ready then (Returns (Inr ()), c)
      else (Blocks, c\<lparr>pendingIO := pendingIO c @ [w]\<rparr>))"

text \<open>
  Modelled from the spec: what drives the client-wide state machine of section 4.4, apart
  from \<open>accept\<close> and \<open>close\<close>: the first \<open>connect()\<close>, the handshake acknowledgement (with
  the transport it establishes), a handshake failure, a transport error, the backoff delay
  elapsing, and the episode ceiling being exceeded.
\<close>

datatype trigger =
  FirstConnect | HandshakeAck TunnelConnection | HandshakeFailure | TransportError
  | BackoffElapsed | CeilingExceeded

text \<open>
  Modelled from the spec: the state machine of section 4.4, the second argument being the
  client's current state. \<open>Idle -> Connecting\<close> on the first connect; \<open>Connecting ->
  Connected\<close> on handshake ack; \<open>Connecting -> Reconnecting\<close> on handshake failure, where the
  backoff sleep starts; \<open>Connected -> Reconnecting\<close> on transport error, which tears the
  generation down and fails its virtual connections with the temporary reconnecting error
  (section 4.1); \<open>Reconnecting -> Connecting\<close> after the backoff delay; \<open>Reconnecting ->
  Closed\<close> when the ceiling is exceeded, where what is still blocked ends with
  retry-timed-out (section 8). No other pair is a transition; in particular none leaves
  \<open>Closed\<close>.
\<close>

fun transition :: "trigger \<Rightarrow> ClientState \<Rightarrow> client \<Rightarrow> client" where
  "transition FirstConnect Idle c = c\<lparr>state := Connecting\<rparr>"
| "transition (HandshakeAck t) Connecting c =
     c\<lparr>state := Connected, backoffSleeping := False, transport := Some t\<rparr>"
| "transition HandshakeFailure Connecting c =
     c\<lparr>state := Reconnecting, backoffSleeping := True\<rparr>"
| "transition TransportError Connected c =
     c\<lparr>state := Reconnecting,
       acceptQueue := [],
       woken := woken c @ failAll ErrClientReconnecting (pendingIO c),
       pendingIO := [],
       backoffSleeping := True,
       transport := None\<rparr>"
| "transition BackoffElapsed Reconnecting c =
     c\<lparr>state := Connecting, backoffSleeping := False\<rparr>"
| "transition CeilingExceeded Reconnecting c =
     c\<lparr>state := Closed,
       woken := woken c @ failAll ErrRetryTimedOut (pendingAccepts c)
                        @ failAll ErrRetryTimedOut (pendingIO c),
       pendingAccepts := [],
       pendingIO := [],
       backoffSleeping := False,
       transport := None\<rparr>"
| "transition _ _ c = c"

text \<open>
  Modelled from the spec: an "open" frame for stream \<open>sid\<close> arriving on the live transport
  (section 4.3). The new virtual connection goes to the longest-parked \<open>accept\<close> caller, or
  into the queue when nobody is waiting.
\<close>

definition openFrame :: "nat \<Rightarrow> client \<Rightarrow> client" where
  "openFrame sid c =
     (if state c = Connected then
        (case pendingAccepts c of
           [] \<Rightarrow> c\<lparr>acceptQueue := acceptQueue c @ [sid]\<rparr>
         | w # ws \<Rightarrow> c\<lparr>pendingAccepts := ws, woken := woken c @ [(w, Delivered sid)]\<rparr>)
      else c)"

text \<open>
  Modelled from the spec: data, a "close" frame or buffer room becoming available on the
  live transport for the parked reader or writer \<open>w\<close> (sections 4.3 and 5), which wakes it.
\<close>

definition ioReady :: "nat \<Rightarrow> client \<Rightarrow> client" where
  "ioReady w c =
     (if state c = Connected \<and> w \<in> set (pendingIO c) then
        c\<lparr>pendingIO := removeAll w (pendingIO c), woken := woken c @ [(w, Ready)]\<rparr>
      else c)"

text \<open>
  Everything that can happen to a client: the three kinds of call, the triggers of the state
  machine and the two kinds of frame event. \<open>run\<close> lets a list of them happen in order.
\<close>

datatype event =
  CallAccept nat | CallClose | CallIO nat bool | Trigger trigger | OpenFrame nat | IOReady nat

fun apply_event :: "event \<Rightarrow> client \<Rightarrow> client" where
  "apply_event (CallAccept w) c = snd (accept w c)"
| "apply_event CallClose c = snd (close c)"
| "apply_event (CallIO w ready) c = snd (vcIO w ready c)"
| "apply_event (Trigger t) c = transition t (state c) c"
| "apply_event (OpenFrame sid) c = openFrame sid c"
| "apply_event (IOReady w) c = ioReady w c"

definition run :: "event list \<Rightarrow> client \<Rightarrow> client" where
  "run evs c = fold apply_event evs c"

text \<open>
  A client is quiescent when it is \<open>Closed\<close> with nobody parked, no backoff sleep and no
  transport; it is settled when it is quiescent or not \<open>Closed\<close> at all.
\<close>

definition quiescent :: "client \<Rightarrow> bool" where
  "quiescent c =
     (state c = Closed \<and> pendingAccepts c = [] \<and> pendingIO c = [] \<and>
      \<not> backoffSleeping c \<and> transport c = None)"

definition settled :: "client \<Rightarrow> bool" where
  "settled c = (state c \<noteq> Closed \<or> quiescent c)"


lemmas err_defs =
  ErrRetryTimedOut_def ErrBadToken_def ErrRetryFailed_def ErrClientReconnecting_def
  ErrClientClosed_def ErrAuthorizerNotProvided_def ErrTLSConfigRequired_def

lemmas method_defs = Error_def Temporary_def Timeout_def


section \<open>The predicates on the seven values\<close>

text \<open>
  Claim C1. Each of the seven error values answers both predicates: evaluating
  \<open>Temporary\<close> and \<open>Timeout\<close> on every value of the \<^verbatim>\<open>var\<close> block yields a
  definite pair of booleans, listed here in declaration order.
\<close>

theorem C1_predicates_defined_on_all_errors:
  "map (\<lambda>e. (Temporary e, Timeout e)) definedErrors =
     [(False, True), (False, False), (False, False), (True, False),
      (False, False), (False, False), (False, False)]"
  by (simp add: definedErrors_def err_defs method_defs)

text \<open>
  Claim C2. The client-reconnecting error is temporary and is not a timeout.
\<close>

theorem C2_reconnecting_is_temporary:
  "Temporary ErrClientReconnecting = True \<and> Timeout ErrClientReconnecting = False"
  by (simp add: ErrClientReconnecting_def method_defs)

text \<open>
  Claim C3. The retry-timed-out error is a timeout and is not temporary, and this sets it
  apart from every other failure: among the seven values it is the only timeout, so any
  other defined error \<open>e\<close> has \<open>Timeout e\<close> false.
\<close>

theorem C3_retry_timed_out_is_timeout:
  "Timeout ErrRetryTimedOut = True \<and> Temporary ErrRetryTimedOut = False \<and>
   filter Timeout definedErrors = [ErrRetryTimedOut] \<and>
   (e \<in> set definedErrors \<and> e \<noteq> ErrRetryTimedOut \<longrightarrow> \<not> Timeout e)"
proof -
  have point: "Timeout ErrRetryTimedOut = True \<and> Temporary ErrRetryTimedOut = False"
    by (simp add: ErrRetryTimedOut_def method_defs)
  have only: "filter Timeout definedErrors = [ErrRetryTimedOut]"
    by (simp add: definedErrors_def err_defs Timeout_def)
  have others: "e \<in> set definedErrors \<and> e \<noteq> ErrRetryTimedOut \<longrightarrow> \<not> Timeout e"
  proof
    assume h: "e \<in> set definedErrors \<and> e \<noteq> ErrRetryTimedOut"
    then have "e \<in> {ErrBadToken, ErrRetryFailed, ErrClientReconnecting, ErrClientClosed,
                    ErrAuthorizerNotProvided, ErrTLSConfigRequired}"
      by (auto simp add: definedErrors_def)
    then show "\<not> Timeout e"
      by (auto simp add: err_defs Timeout_def)
  qed
  from point only others show ?thesis by blast
qed

theorem C3_retry_timed_out_is_timeout_witness:
  "ErrRetryFailed \<in> set definedErrors \<and> ErrRetryFailed \<noteq> ErrRetryTimedOut \<and>
   \<not> Timeout ErrRetryFailed \<and>
   Timeout ErrRetryTimedOut = True \<and> Temporary ErrRetryTimedOut = False \<and>
   filter Timeout definedErrors = [ErrRetryTimedOut]"
proof -
  have h: "ErrRetryFailed \<in> set definedErrors \<and> ErrRetryFailed \<noteq> ErrRetryTimedOut"
    by (simp add: definedErrors_def ErrRetryFailed_def ErrRetryTimedOut_def)
  from C3_retry_timed_out_is_timeout [of ErrRetryFailed] h show ?thesis by blast
qed

text \<open>
  Claim C4. Among the seven values, \<open>ErrClientReconnecting\<close> is the only temporary one,
  \<open>ErrRetryTimedOut\<close> is the only timeout, and none is both.
\<close>

theorem C4_unique_temporary_and_timeout:
  "filter Temporary definedErrors = [ErrClientReconnecting] \<and>
   filter Timeout definedErrors = [ErrRetryTimedOut] \<and>
   filter (\<lambda>e. Temporary e \<and> Timeout e) definedErrors = []"
  by (simp add: definedErrors_def err_defs method_defs)

text \<open>
  Claim C5. The bad-token error is neither temporary nor a timeout.
\<close>

theorem C5_bad_token_not_retried:
  "Temporary ErrBadToken = False \<and> Timeout ErrBadToken = False"
  by (simp add: ErrBadToken_def method_defs)

text \<open>
  Claim C6. The client-closed error is neither temporary nor a timeout.
\<close>

theorem C6_client_closed_permanent:
  "Temporary ErrClientClosed = False \<and> Timeout ErrClientClosed = False"
  by (simp add: ErrClientClosed_def method_defs)

text \<open>
  Claim C7. Both construction-time validation errors are neither temporary nor a timeout.
\<close>

theorem C7_validation_errors_permanent:
  "Temporary ErrAuthorizerNotProvided = False \<and> Timeout ErrAuthorizerNotProvided = False \<and>
   Temporary ErrTLSConfigRequired = False \<and> Timeout ErrTLSConfigRequired = False"
  by (simp add: ErrAuthorizerNotProvided_def ErrTLSConfigRequired_def method_defs)

text \<open>
  Claim C8. Both predicates are projections of the two boolean fields: on every
  \<open>clientError\<close> value \<open>Temporary\<close> returns the \<open>reconnect\<close> field and \<open>Timeout\<close> returns
  the \<open>timeout\<close> field, whatever the message is, and evaluating either predicate on equal
  values gives equal answers.
\<close>

theorem C8_predicates_are_field_projections:
  "Temporary c = reconnect c \<and> Timeout c = timeout c \<and>
   Temporary \<lparr>errString = s, reconnect = r, timeout = t\<rparr> = r \<and>
   Timeout \<lparr>errString = s, reconnect = r, timeout = t\<rparr> = t \<and>
   (c = c' \<longrightarrow> Temporary c = Temporary c' \<and> Timeout c = Timeout c')"
  by (simp add: method_defs)

theorem C8_predicates_are_field_projections_witness:
  "ErrClientReconnecting = ErrClientReconnecting \<and>
   Temporary ErrClientReconnecting = reconnect ErrClientReconnecting \<and>
   Timeout ErrClientReconnecting = timeout ErrClientReconnecting \<and>
   Temporary \<lparr>errString = ''x'', reconnect = True, timeout = False\<rparr> = True \<and>
   Timeout \<lparr>errString = ''x'', reconnect = True, timeout = False\<rparr> = False \<and>
   Temporary ErrClientReconnecting = Temporary ErrClientReconnecting \<and>
   Timeout ErrClientReconnecting = Timeout ErrClientReconnecting"
  using C8_predicates_are_field_projections
          [of ErrClientReconnecting "''x''" True False ErrClientReconnecting]
  by simp

text \<open>
  Claim C10. \<open>Error\<close> returns the \<open>errString\<close> field of its receiver; the messages of the
  seven values are the seven strings below, in declaration order, and they are pairwise
  distinct and none of them is empty.
\<close>

theorem C10_messages_distinct_nonempty:
  "Error c = errString c \<and>
   map Error definedErrors =
     [''retry timed out'', ''bad auth token'', ''retry failed'', ''client reconnecting'',
      ''client closed'', ''authorizer function was not provided to client'',
      ''tls config must be provided to use secure connections''] \<and>
   distinct (map Error definedErrors) \<and>
   filter (\<lambda>e. Error e = []) definedErrors = []"
  by (simp add: definedErrors_def err_defs Error_def)


section \<open>Idempotence of \<open>close\<close>\<close>

lemma quiescent_closed_once: "quiescent (closed_once c)"
  by (simp add: quiescent_def closed_once_def close_def)

lemma close_quiescent:
  assumes "quiescent c"
  shows "close c = (Returns None, c)"
  using assms by (cases c) (simp add: quiescent_def close_def failAll_def)

lemma transition_Closed: "transition t Closed c = c"
  by (cases t) simp_all

text \<open>Nothing that happens to a quiescent client changes it.\<close>

lemma apply_event_quiescent:
  assumes "quiescent c"
  shows "apply_event e c = c"
proof (cases e)
  case CallClose
  then show ?thesis using close_quiescent [OF assms] by simp
next
  case (Trigger t)
  then show ?thesis using assms by (simp add: quiescent_def transition_Closed)
qed (use assms in \<open>simp_all add: quiescent_def accept_def vcIO_def openFrame_def ioReady_def\<close>)

lemma run_quiescent:
  assumes "quiescent c"
  shows "run evs c = c"
  unfolding run_def using assms
  by (induction evs) (simp_all add: apply_event_quiescent)

text \<open>
  Only \<open>close\<close> and the ceiling lead into \<open>Closed\<close>, and both leave the client quiescent:
  every client reached from a new one is settled.
\<close>

lemma transition_settled:
  assumes "settled c"
  shows "settled (transition t (state c) c)"
proof (cases "state c = Closed")
  case True
  then show ?thesis using assms by (simp add: transition_Closed)
next
  case False
  then show ?thesis
    by (cases t; cases "state c") (simp_all add: settled_def quiescent_def)
qed

lemma apply_event_settled:
  assumes "settled c"
  shows "settled (apply_event e c)"
proof (cases "state c = Closed")
  case True
  with assms have "quiescent c" by (simp add: settled_def)
  then show ?thesis using assms by (simp add: apply_event_quiescent)
next
  case False
  show ?thesis
  proof (cases e)
    case CallClose
    then show ?thesis using quiescent_closed_once [of c]
      by (simp add: settled_def closed_once_def)
  next
    case (Trigger t)
    then show ?thesis using transition_settled [OF assms] by simp
  next
    case (CallAccept w)
    then show ?thesis using False
      by (simp add: settled_def accept_def split: list.split)
  next
    case (CallIO w r)
    then show ?thesis using False by (simp add: settled_def vcIO_def)
  next
    case (OpenFrame sid)
    then show ?thesis using False
      by (simp add: settled_def openFrame_def split: list.split)
  next
    case (IOReady w)
    then show ?thesis using False by (simp add: settled_def ioReady_def)
  qed
qed

lemma run_settled:
  assumes "settled c"
  shows "settled (run evs c)"
  unfolding run_def using assms
  by (induction evs arbitrary: c) (simp_all add: apply_event_settled)

lemma settled_newClient: "settled newClient"
  by (simp add: settled_def newClient_def)

text \<open>
  Blocking is a real outcome in this model: \<open>accept\<close> on a new client parks its caller, and
  so does a read or write on a live connection with nothing ready.
\<close>

lemma accept_can_block:
  "accept w newClient =
     (Blocks, newClient\<lparr>state := Connecting, pendingAccepts := [w]\<rparr>)"
  by (simp add: accept_def newClient_def)

lemma vcIO_can_block:
  "fst (vcIO w False (newClient\<lparr>state := Connected\<rparr>)) = Blocks"
  by (simp add: vcIO_def newClient_def)

text \<open>
  Claim C9. \<open>close\<close> is idempotent. Let \<open>c\<close> be any client in any state and let \<open>close\<close> be
  called on it once. Then, whatever list \<open>evs\<close> of calls (\<open>accept\<close>, reads and writes,
  further \<open>close\<close>s), state-machine triggers and frame events happens afterwards, a later
  call of \<open>close\<close> does not block (its outcome is \<open>Returns\<close>, not \<open>Blocks\<close>), returns no
  error, and leaves the client exactly as the first call left it; and the events in between
  change nothing either. The first call does not block, leaves the client \<open>Closed\<close> with
  nobody parked, no backoff sleep and no transport, and has handed a client-closed error to
  every caller that was parked. Finally, the same holds however \<open>Closed\<close> was reached: on
  any client that a list \<open>evs'\<close> of events leads a new client to, if the state is \<open>Closed\<close>
  then \<open>close\<close> returns no error without blocking and changes nothing.
\<close>

theorem C9_close_idempotent:
  "fst (close (run evs (closed_once c))) = Returns None \<and>
   snd (close (run evs (closed_once c))) = closed_once c \<and>
   run evs (closed_once c) = closed_once c \<and>
   fst (close c) \<noteq> Blocks \<and>
   state (closed_once c) = Closed \<and>
   pendingAccepts (closed_once c) = [] \<and> pendingIO (closed_once c) = [] \<and>
   backoffSleeping (closed_once c) = False \<and> transport (closed_once c) = None \<and>
   woken (closed_once c) =
     woken c @ failAll ErrClientClosed (pendingAccepts c)
             @ failAll ErrClientClosed (pendingIO c) \<and>
   (state (run evs' newClient) = Closed \<longrightarrow>
      close (run evs' newClient) = (Returns None, run evs' newClient))"
proof -
  have q: "quiescent (closed_once c)" by (rule quiescent_closed_once)
  have r: "run evs (closed_once c) = closed_once c" by (rule run_quiescent [OF q])
  have c2: "close (closed_once c) = (Returns None, closed_once c)"
    by (rule close_quiescent [OF q])
  have c1: "fst (close c) \<noteq> Blocks" by (simp add: close_def)
  have w: "woken (closed_once c) =
     woken c @ failAll ErrClientClosed (pendingAccepts c)
             @ failAll ErrClientClosed (pendingIO c)"
    by (simp add: closed_once_def close_def)
  have "settled (run evs' newClient)" by (rule run_settled [OF settled_newClient])
  then have reach: "state (run evs' newClient) = Closed \<longrightarrow>
      close (run evs' newClient) = (Returns None, run evs' newClient)"
    by (auto simp add: settled_def intro: close_quiescent)
  from q r c2 c1 w reach show ?thesis by (simp add: quiescent_def)
qed

theorem C9_close_idempotent_witness:
  "state (run [CallAccept 1, Trigger HandshakeFailure, Trigger CeilingExceeded] newClient)
     = Closed \<and>
   close (run [CallAccept 1, Trigger HandshakeFailure, Trigger CeilingExceeded] newClient) =
     (Returns None,
      run [CallAccept 1, Trigger HandshakeFailure, Trigger CeilingExceeded] newClient) \<and>
   close (run [CallAccept 2, CallClose, Trigger BackoffElapsed]
            (closed_once (snd (accept 1 newClient)))) =
     (Returns None, closed_once (snd (accept 1 newClient)))"
proof -
  have h: "state (run [CallAccept 1, Trigger HandshakeFailure, Trigger CeilingExceeded]
                    newClient) = Closed"
    by (simp add: run_def accept_def newClient_def)
  from C9_close_idempotent
         [of "[CallAccept 2, CallClose, Trigger BackoffElapsed]" "snd (accept 1 newClient)"
             "[CallAccept 1, Trigger HandshakeFailure, Trigger CeilingExceeded]"] h
  show ?thesis by (metis prod.collapse)
qed

end
